theory Spec2Isabelle
  imports Main "HOL-Library.Word"
begin

unbundle bit_operations_syntax

section \<open>Byte slices and the buffer pool\<close>

text \<open>
  A Go byte slice is modelled by the part of its backing array that starts at the slice's
  first element and runs to the slice's capacity (\<open>store\<close>), together with the slice's
  length (\<open>len\<close>). The capacity is the length of \<open>store\<close>. Go's \<open>int\<close> arguments
  are \<open>int\<close>; positions that the code only ever adds non-negative amounts to are
  \<open>nat\<close>. Every run-time panic of the source is a value of \<open>panic\<close>.
\<close>

type_synonym byte = "8 word"

datatype panic =
    LengthGreaterThanCapacity
  | SliceBounds
  | IndexRange
  | Raised string

record buffer =
  store :: "byte list"
  len :: nat

definition cap :: "buffer \<Rightarrow> nat" where
  "cap b = length (store b)"

text \<open>The slice expression \<open>b[lo:hi]\<close>: in range when \<open>0 \<le> lo \<le> hi \<le> cap(b)\<close>.\<close>

definition slice :: "buffer \<Rightarrow> int \<Rightarrow> int \<Rightarrow> panic + buffer" where
  "slice b lo hi =
     (if 0 \<le> lo \<and> lo \<le> hi \<and> hi \<le> int (cap b)
      then Inr \<lparr>store = drop (nat lo) (store b), len = nat (hi - lo)\<rparr>
      else Inl SliceBounds)"

text \<open>
  \<open>append(b, make([]byte, n)...)\<close> on a slice whose length equals its capacity, with
  \<open>n > 0\<close>: the runtime allocates a new array that holds the old elements and \<open>n\<close>
  zero bytes. Go only promises a "sufficiently large" array; how many spare elements it
  adds is the runtime's choice, taken here as the parameter \<open>rt\<close> (a function of the
  old capacity and of the length needed).
\<close>

type_synonym allocator = "nat \<Rightarrow> nat \<Rightarrow> nat"

definition append_zeros :: "allocator \<Rightarrow> buffer \<Rightarrow> nat \<Rightarrow> buffer" where
  "append_zeros rt b n =
     \<lparr>store = store b @ replicate (n + rt (cap b) (cap b + n)) 0, len = cap b + n\<rparr>"

text \<open>
  \<^verbatim>\<open>
  func GrowBuffer(buf []byte, capacity, length int) []byte {
      if length > capacity { panic("length is greater than capacity") }
      if n := capacity - cap(buf); n > 0 {
          buf = append(buf[:cap(buf)], make([]byte, n)...)
      }
      return buf[:length]
  }
  \<close>
\<close>

definition GrowBuffer :: "allocator \<Rightarrow> buffer \<Rightarrow> int \<Rightarrow> int \<Rightarrow> panic + buffer" where
  "GrowBuffer rt buf capacity length' =
     (if length' > capacity then Inl LengthGreaterThanCapacity
      else
        let n = capacity - int (cap buf);
            buf' = (if n > 0 then append_zeros rt (buf\<lparr>len := cap buf\<rparr>) (nat n) else buf)
        in slice buf' 0 length')"

text \<open>
  \<open>GetBuffer\<close> takes a slice from the pool and grows it. What the pool hands out
  (a fresh 4096-byte slice from \<open>New\<close>, or any slice given back by \<open>FreeBuffer\<close>) is
  the argument \<open>pooled\<close>.
\<close>

definition pool_New :: buffer where
  "pool_New = \<lparr>store = replicate 4096 0, len = 4096\<rparr>"

definition GetBuffer :: "allocator \<Rightarrow> buffer \<Rightarrow> int \<Rightarrow> int \<Rightarrow> panic + buffer" where
  "GetBuffer rt pooled capacity length' = GrowBuffer rt pooled capacity length'"

section \<open>Length headers\<close>

text \<open>
  \<open>DecodeLength = binary.BigEndian.Uint16\<close> and \<open>EncodeLength =
  binary.BigEndian.PutUint16\<close>. Both touch \<open>b[1]\<close> first, so a slice shorter than
  two bytes is an index panic.
\<close>

definition DecodeLength :: "buffer \<Rightarrow> panic + 16 word" where
  "DecodeLength b =
     (if len b < 2 then Inl IndexRange
      else Inr (ucast (store b ! 1) OR push_bit 8 (ucast (store b ! 0))))"

definition EncodeLength :: "buffer \<Rightarrow> 16 word \<Rightarrow> panic + buffer" where
  "EncodeLength b v =
     (if len b < 2 then Inl IndexRange
      else Inr (b\<lparr>store := (store b)[0 := ucast (drop_bit 8 v), 1 := ucast v]\<rparr>))"

section \<open>Connections, requests and handlers\<close>

text \<open>
  A stream connection is the script of what its peer sends: segments of bytes that become
  readable one after the other, or a transport failure; when the script is used up the
  stream is at its end. \<open>Read\<close> with room for \<open>space\<close> bytes returns at most that
  many bytes of the first segment and leaves the rest of it for the next call; with no
  room it returns \<open>(0, nil)\<close> and consumes nothing, as a \<open>net.Conn\<close> does.
\<close>

type_synonym addr = string
type_synonym "context" = nat

datatype segment = Bytes "byte list" | Failure string

datatype read_error = EOF | NetError string

record conn =
  conn_id :: nat
  conn_local :: addr
  conn_remote :: addr
  incoming :: "segment list"

fun Read :: "conn \<Rightarrow> nat \<Rightarrow> byte list \<times> read_error option \<times> conn" where
  "Read cn space =
     (case incoming cn of
        [] \<Rightarrow> ([], Some EOF, cn)
      | Failure e # rest \<Rightarrow> ([], Some (NetError e), cn\<lparr>incoming := rest\<rparr>)
      | Bytes bs # rest \<Rightarrow>
          (let n = min (length bs) space
           in (take n bs, None,
               cn\<lparr>incoming := (if n = length bs then rest else Bytes (drop n bs) # rest)\<rparr>)))"

datatype writer = PacketWriter nat addr | StreamWriter nat

record 'h Request =
  Header :: "'h option"
  LocalAddr :: addr
  RemoteAddr :: addr
  ctx :: "context"

text \<open>
  A handler either returns or panics with a value. The message codec's
  \<open>Parser.Start\<close> is an argument (\<open>Start\<close>): it gives the header or an error.
\<close>

type_synonym 'h handler = "writer \<Rightarrow> 'h Request \<Rightarrow> panic option"

datatype 'h handled = ParseFailed string | Served "'h Request" | Recovered panic

record 'h dispatch =
  message :: "byte list"
  via :: writer
  request :: "'h Request"
  result :: "'h handled"

text \<open>
  A function whose first deferred call is \<open>recover()\<close>: a panic of the body stops
  there, is logged, and the function returns normally.
\<close>

definition deferred_recover :: "(panic \<Rightarrow> 'a) \<Rightarrow> panic + 'a \<Rightarrow> panic + 'a" where
  "deferred_recover logged body = (case body of Inl v \<Rightarrow> Inr (logged v) | Inr r \<Rightarrow> Inr r)"

definition Handle_body ::
  "(byte list \<Rightarrow> string + 'h) \<Rightarrow> 'h handler \<Rightarrow> byte list \<Rightarrow> writer \<Rightarrow> 'h Request
     \<Rightarrow> panic + 'h handled" where
  "Handle_body Start h buf wr req =
     (case Start buf of
        Inl err \<Rightarrow> Inr (ParseFailed err)
      | Inr parsed \<Rightarrow>
          (let req' = req\<lparr>Header := Some parsed\<rparr>
           in case h wr req' of Some v \<Rightarrow> Inl v | None \<Rightarrow> Inr (Served req')))"

definition Handle ::
  "(byte list \<Rightarrow> string + 'h) \<Rightarrow> 'h handler \<Rightarrow> byte list \<Rightarrow> writer \<Rightarrow> 'h Request
     \<Rightarrow> panic + 'h handled" where
  "Handle Start h buf wr req = deferred_recover Recovered (Handle_body Start h buf wr req)"

section \<open>The stream reassembly loop\<close>

record cursor =
  buf :: buffer
  wpos :: nat
  rpos :: nat

text \<open>\<open>nread, err := conn.Read(buf[wpos:]); wpos += nread\<close>\<close>

definition fill :: "cursor \<Rightarrow> conn \<Rightarrow> panic + (cursor \<times> read_error option \<times> conn)" where
  "fill c cn =
     (case slice (buf c) (int (wpos c)) (int (len (buf c))) of
        Inl p \<Rightarrow> Inl p
      | Inr dst \<Rightarrow>
          (case Read cn (len dst) of
             (data, err, cn') \<Rightarrow>
               Inr (c\<lparr>buf := (buf c)\<lparr>store := take (wpos c) (store (buf c)) @ data
                                     @ drop (wpos c + length data) (store (buf c))\<rparr>,
                      wpos := wpos c + length data\<rparr>,
                    err, cn')))"

text \<open>
  The inner loop, \<open>for wpos-rpos >= 14 { ... }\<close>. It returns the panic that ended it
  (if any), the cursor it left, and the calls of \<open>Handle\<close> it made, in order.
\<close>

function frames ::
  "allocator \<Rightarrow> (byte list \<Rightarrow> string + 'h) \<Rightarrow> 'h handler \<Rightarrow> context \<Rightarrow> conn \<Rightarrow> cursor
     \<Rightarrow> panic option \<times> cursor \<times> 'h dispatch list" where
  "frames rt Start h cx cn c =
     (if 14 \<le> int (wpos c) - int (rpos c) then
        (case slice (buf c) (int (rpos c)) (int (len (buf c))) of
           Inl p \<Rightarrow> (Some p, c, [])
         | Inr hdr \<Rightarrow>
            (case DecodeLength hdr of
               Inl p \<Rightarrow> (Some p, c, [])
             | Inr v \<Rightarrow>
                (case GrowBuffer rt (buf c) (int (unat v)) (int (unat v)) of
                   Inl p \<Rightarrow> (Some p, c, [])
                 | Inr b \<Rightarrow>
                    if int (unat v) > int (wpos c) - (int (rpos c) + 2)
                    then (None, c\<lparr>buf := b\<rparr>, [])
                    else
                      (case slice b (int (rpos c + 2)) (int (rpos c + 2) + int (unat v)) of
                         Inl p \<Rightarrow> (Some p, c\<lparr>buf := b, rpos := rpos c + 2\<rparr>, [])
                       | Inr msg \<Rightarrow>
                          (let wr = StreamWriter (conn_id cn);
                               req = \<lparr>Header = None, LocalAddr = conn_remote cn,
                                      RemoteAddr = conn_remote cn, ctx = cx\<rparr>
                           in case Handle Start h (take (len msg) (store msg)) wr req of
                                Inl p \<Rightarrow> (Some p, c\<lparr>buf := b, rpos := rpos c + 2\<rparr>, [])
                              | Inr res \<Rightarrow>
                                  (case frames rt Start h cx cn
                                          (c\<lparr>buf := b, rpos := rpos c + 2 + unat v\<rparr>) of
                                     (po, c', ds) \<Rightarrow>
                                       (po, c',
                                        \<lparr>message = take (len msg) (store msg), via = wr,
                                         request = req, result = res\<rparr> # ds)))))))
      else (None, c, []))"
  by pat_completeness auto
termination
  by (relation "measure (\<lambda>(rt, Start, h, cx, cn, c). wpos c - rpos c)") auto

declare frames.simps [simp del]

text \<open>
  Go's \<open>copy(dst, src)\<close> moves \<open>min(len(dst), len(src))\<close> bytes and returns that
  number; the two slices may overlap (it is a memmove).
\<close>

definition copy :: "buffer \<Rightarrow> buffer \<Rightarrow> buffer \<times> nat" where
  "copy dst src =
     (let n = min (len dst) (len src)
      in (dst\<lparr>store := take n (store src) @ drop n (store dst)\<rparr>, n))"

text \<open>\<open>wpos = copy(buf, buf[rpos:wpos]); rpos = 0; buf = buf[:cap(buf)]\<close>\<close>

definition compact :: "cursor \<Rightarrow> panic + cursor" where
  "compact c =
     (case slice (buf c) (int (rpos c)) (int (wpos c)) of
        Inl p \<Rightarrow> Inl p
      | Inr src \<Rightarrow>
          (case copy (buf c) src of
             (b, n) \<Rightarrow>
               (case slice b 0 (int (cap b)) of
                  Inl p \<Rightarrow> Inl p
                | Inr b' \<Rightarrow> Inr \<lparr>buf = b', wpos = n, rpos = 0\<rparr>)))"

datatype exit = EndOfStream | ReadFailed string | Panicked panic

text \<open>
  The outer \<open>for { ... }\<close>. Nothing bounds the number of reads (a read into a full
  buffer returns nothing and the loop reads again), so the model takes fuel: one unit
  per read, \<open>None\<close> when it runs out.
\<close>

fun stream_loop ::
  "nat \<Rightarrow> allocator \<Rightarrow> (byte list \<Rightarrow> string + 'h) \<Rightarrow> 'h handler \<Rightarrow> context \<Rightarrow> conn \<Rightarrow> cursor
     \<Rightarrow> (exit \<times> 'h dispatch list) option" where
  "stream_loop 0 rt Start h cx cn c = None"
| "stream_loop (Suc k) rt Start h cx cn c =
     (case fill c cn of
        Inl p \<Rightarrow> Some (Panicked p, [])
      | Inr (c1, err, cn1) \<Rightarrow>
          (case frames rt Start h cx cn1 c1 of
             (Some p, c2, ds) \<Rightarrow> Some (Panicked p, ds)
           | (None, c2, ds) \<Rightarrow>
               (case err of
                  Some EOF \<Rightarrow> Some (EndOfStream, ds)
                | Some (NetError e) \<Rightarrow> Some (ReadFailed e, ds)
                | None \<Rightarrow>
                    (case compact c2 of
                       Inl p \<Rightarrow> Some (Panicked p, ds)
                     | Inr c3 \<Rightarrow>
                         map_option (\<lambda>(x, ds'). (x, ds @ ds'))
                           (stream_loop k rt Start h cx cn1 c3)))))"

section \<open>The server\<close>

text \<open>
  The server's closer set holds the listeners and connections given to \<open>AddCloser\<close>,
  in the order they were added. What \<open>Close\<close> returns for each of them is the
  environment's: the argument \<open>Close\<close>, \<open>None\<close> for \<open>nil\<close>.
\<close>

datatype closer = PacketConnC nat | ListenerC nat | ConnC nat

record 'h Server =
  Handler :: "'h handler"
  BaseContext :: "(context \<Rightarrow> addr \<Rightarrow> context) option"
  ConnContext :: "(context \<Rightarrow> conn \<Rightarrow> context) option"
  entries :: "closer list"

definition AddCloser :: "'h Server \<Rightarrow> closer \<Rightarrow> 'h Server" where
  "AddCloser srv cl = srv\<lparr>entries := entries srv @ [cl]\<rparr>"

text \<open>
  \<open>multierr.Append\<close>: \<open>nil\<close> when both are \<open>nil\<close>, the other one when one is
  \<open>nil\<close>, otherwise one error that holds the errors of both, flattened, in order.
\<close>

datatype error = Single string | Multi "string list"

fun errors_of :: "error option \<Rightarrow> string list" where
  "errors_of None = []"
| "errors_of (Some (Single e)) = [e]"
| "errors_of (Some (Multi es)) = es"

fun multierr_Append :: "error option \<Rightarrow> error option \<Rightarrow> error option" where
  "multierr_Append None right = right"
| "multierr_Append (Some l) None = Some l"
| "multierr_Append (Some l) (Some r) = Some (Multi (errors_of (Some l) @ errors_of (Some r)))"

text \<open>\<open>for _, closer := range cls.entries { err = multierr.Append(err, closer.Close()) }\<close>\<close>

fun close_each :: "(closer \<Rightarrow> string option) \<Rightarrow> closer list \<Rightarrow> error option \<Rightarrow> error option" where
  "close_each Close [] err = err"
| "close_each Close (cl # rest) err =
     close_each Close rest (multierr_Append err (map_option Single (Close cl)))"

definition CloseAll :: "(closer \<Rightarrow> string option) \<Rightarrow> 'h Server \<Rightarrow> error option" where
  "CloseAll Close srv = close_each Close (entries srv) None"

text \<open>
  \<open>Shutdown\<close> has the named result \<open>err\<close>. The body logs what \<open>CloseAll\<close>
  returned, waits for the serving routines or for the caller's context, cancels the root
  context and returns; no statement assigns \<open>err\<close>. The model returns the result and
  the \<open>shutdown.close\<close> log entries.
\<close>

definition Shutdown :: "(closer \<Rightarrow> string option) \<Rightarrow> 'h Server \<Rightarrow> error option \<times> error list" where
  "Shutdown Close srv =
     (let err = None;
          logged = (case CloseAll Close srv of Some cerr \<Rightarrow> [cerr] | None \<Rightarrow> [])
      in (err, logged))"

text \<open>
  \<open>HandleStream\<close>: the context hook, a 4096-byte buffer from the pool, and the loop.
\<close>

definition HandleStream ::
  "nat \<Rightarrow> allocator \<Rightarrow> (byte list \<Rightarrow> string + 'h) \<Rightarrow> 'h Server \<Rightarrow> buffer \<Rightarrow> context \<Rightarrow> conn
     \<Rightarrow> (exit \<times> 'h dispatch list) option" where
  "HandleStream fuel rt Start srv pooled cx cn =
     (let cx' = (case ConnContext srv of Some f \<Rightarrow> f cx cn | None \<Rightarrow> cx)
      in case GetBuffer rt pooled 4096 4096 of
           Inl p \<Rightarrow> Some (Panicked p, [])
         | Inr b \<Rightarrow> stream_loop fuel rt Start (Handler srv) cx' cn \<lparr>buf = b, wpos = 0, rpos = 0\<rparr>)"

text \<open>
  A listener is the script of the connections it accepts and the error \<open>Accept\<close>
  returns once they are used up. \<open>ServeStream\<close> registers the listener, then starts one
  \<open>HandleStream\<close> per accepted connection; the routines are listed in accept order.
\<close>

record listener =
  listener_id :: nat
  listener_addr :: addr
  backlog :: "conn list"
  accept_failure :: string

definition ServeStream ::
  "nat \<Rightarrow> allocator \<Rightarrow> (byte list \<Rightarrow> string + 'h) \<Rightarrow> 'h Server \<Rightarrow> buffer \<Rightarrow> context \<Rightarrow> listener
     \<Rightarrow> 'h Server \<times> string \<times> (exit \<times> 'h dispatch list) option list" where
  "ServeStream fuel rt Start srv pooled root l =
     (let srv' = AddCloser srv (ListenerC (listener_id l));
          cx = (case BaseContext srv' of Some f \<Rightarrow> f root (listener_addr l) | None \<Rightarrow> root)
      in (srv', accept_failure l, map (HandleStream fuel rt Start srv' pooled cx) (backlog l)))"

text \<open>
  A packet connection is the script of the datagrams it receives (sender and bytes) and
  the error \<open>ReadFrom\<close> returns once they are used up. \<open>Serve\<close> registers the
  connection and gives every datagram to \<open>Handle\<close> in a routine of its own; the model
  lists the routines in arrival order.
\<close>

record packet_conn =
  pconn_id :: nat
  pconn_local :: addr
  datagrams :: "(addr \<times> byte list) list"
  read_failure :: string

fun datagram_loop ::
  "allocator \<Rightarrow> (byte list \<Rightarrow> string + 'h) \<Rightarrow> 'h handler \<Rightarrow> context \<Rightarrow> buffer \<Rightarrow> packet_conn
     \<Rightarrow> (addr \<times> byte list) list \<Rightarrow> exit \<times> 'h dispatch list" where
  "datagram_loop rt Start h cx pooled pc [] = (ReadFailed (read_failure pc), [])"
| "datagram_loop rt Start h cx pooled pc ((from, d) # rest) =
     (case GetBuffer rt pooled 4096 4096 of
        Inl p \<Rightarrow> (Panicked p, [])
      | Inr b \<Rightarrow>
          (let size = min (len b) (length d);
               b1 = b\<lparr>store := take size d @ drop size (store b)\<rparr>
           in case slice b1 0 (int size) of
                Inl p \<Rightarrow> (Panicked p, [])
              | Inr msg \<Rightarrow>
                  (let wr = PacketWriter (pconn_id pc) from;
                       req = \<lparr>Header = None, LocalAddr = pconn_local pc,
                              RemoteAddr = from, ctx = cx\<rparr>
                   in case Handle Start h (take (len msg) (store msg)) wr req of
                        Inl p \<Rightarrow> (Panicked p, [])
                      | Inr res \<Rightarrow>
                          (case datagram_loop rt Start h cx pooled pc rest of
                             (x, ds) \<Rightarrow>
                               (x, \<lparr>message = take (len msg) (store msg), via = wr,
                                    request = req, result = res\<rparr> # ds)))))"

definition Serve ::
  "allocator \<Rightarrow> (byte list \<Rightarrow> string + 'h) \<Rightarrow> 'h Server \<Rightarrow> buffer \<Rightarrow> context \<Rightarrow> packet_conn
     \<Rightarrow> 'h Server \<times> exit \<times> 'h dispatch list" where
  "Serve rt Start srv pooled root pc =
     (let srv' = AddCloser srv (PacketConnC (pconn_id pc));
          cx = (case BaseContext srv' of Some f \<Rightarrow> f root (pconn_local pc) | None \<Rightarrow> root)
      in (srv', datagram_loop rt Start (Handler srv') cx pooled pc (datagrams pc)))"

section \<open>Response writers\<close>

text \<open>
  The codec's builder appends the encoded message to the slice it was started on, and
  \<open>Finish\<close> returns the whole slice: the initial bytes, then the encoded message
  (\<open>content\<close>), or an error. \<open>Builder\<close> starts it on a pooled buffer of length 0
  (packet) or 2 (stream).
\<close>

definition Finish :: "buffer \<Rightarrow> byte list \<Rightarrow> string + buffer" where
  "Finish initial content =
     Inr \<lparr>store = take (len initial) (store initial) @ content
                   @ drop (len initial + length content) (store initial),
          len = len initial + length content\<rparr>"

definition PacketWriter_Builder :: "allocator \<Rightarrow> buffer \<Rightarrow> panic + buffer" where
  "PacketWriter_Builder rt pooled = GetBuffer rt pooled 4096 0"

definition StreamWriter_Builder :: "allocator \<Rightarrow> buffer \<Rightarrow> panic + buffer" where
  "StreamWriter_Builder rt pooled = GetBuffer rt pooled 4096 2"

text \<open>
  \<open>Send\<close> writes the slice to the connection and panics with the write error, if any
  (\<open>werr\<close>); the model returns the bytes written.
\<close>

definition Send :: "string option \<Rightarrow> buffer \<Rightarrow> panic + byte list" where
  "Send werr msg = (case werr of Some e \<Rightarrow> Inl (Raised e) | None \<Rightarrow> Inr (take (len msg) (store msg)))"

definition PacketWriter_SendBuilder :: "string option \<Rightarrow> string + buffer \<Rightarrow> panic + byte list" where
  "PacketWriter_SendBuilder werr finished =
     (case finished of Inl e \<Rightarrow> Inl (Raised e) | Inr msg \<Rightarrow> Send werr msg)"

text \<open>\<open>EncodeLength(msg, uint16(len(msg)-2))\<close>: the conversion keeps the low 16 bits.\<close>

definition StreamWriter_SendBuilder :: "string option \<Rightarrow> string + buffer \<Rightarrow> panic + byte list" where
  "StreamWriter_SendBuilder werr finished =
     (case finished of
        Inl e \<Rightarrow> Inl (Raised e)
      | Inr msg \<Rightarrow>
          (case EncodeLength msg (word_of_int (int (len msg) - 2)) of
             Inl p \<Rightarrow> Inl p
           | Inr framed \<Rightarrow> Send werr framed))"

section \<open>Concrete inputs\<close>

text \<open>
  The inputs the theorems below are evaluated at. The runtime adds no spare capacity;
  the codec stand-in takes the first 12 bytes of a message as its header and fails on a
  shorter one; the handler returns at once; the connection has the addresses of the
  repository's stream test. \<open>query i n\<close> is a 12-byte header with identifier \<open>i\<close>
  and \<open>n\<close> further bytes; \<open>frame\<close> puts the big-endian length in front.
\<close>

definition no_slack :: allocator where
  "no_slack = (\<lambda>old need. 0)"

definition raw_header :: "byte list \<Rightarrow> string + byte list" where
  "raw_header msg = (if length msg < 12 then Inl ''short'' else Inr (take 12 msg))"

definition quiet :: "byte list handler" where
  "quiet = (\<lambda>wr req. None)"

definition grumpy :: "byte list handler" where
  "grumpy = (\<lambda>wr req. Some (Raised ''boom''))"

definition refusing :: "closer \<Rightarrow> string option" where
  "refusing = (\<lambda>cl. Some ''use of closed network connection'')"

definition plain_server :: "byte list Server" where
  "plain_server = \<lparr>Handler = quiet, BaseContext = None, ConnContext = None, entries = []\<rparr>"

definition peer :: "segment list \<Rightarrow> conn" where
  "peer segs = \<lparr>conn_id = 7, conn_local = ''10.0.1.1:53'', conn_remote = ''1.2.3.4:4242'',
               incoming = segs\<rparr>"

definition query :: "byte \<Rightarrow> nat \<Rightarrow> byte list" where
  "query ident n = [0, ident, 0, 0, 0, 0, 0, 0, 0, 0, 0, 0] @ replicate n 0"

definition frame :: "byte list \<Rightarrow> byte list" where
  "frame msg = [word_of_nat (length msg div 256), word_of_nat (length msg mod 256)] @ msg"

definition fresh :: cursor where
  "fresh = \<lparr>buf = pool_New, wpos = 0, rpos = 0\<rparr>"

definition holding :: "byte list \<Rightarrow> nat \<Rightarrow> nat \<Rightarrow> cursor" where
  "holding bytes l w =
     \<lparr>buf = \<lparr>store = bytes @ replicate (4096 - length bytes) 0, len = l\<rparr>, wpos = w, rpos = 0\<rparr>"

text \<open>What a run of the loop is observed by: how it ended and the messages handed over.\<close>

definition messages :: "(exit \<times> 'h dispatch list) option \<Rightarrow> (exit \<times> byte list list) option" where
  "messages = map_option (\<lambda>(x, ds). (x, map message ds))"

text \<open>
  What a loop does apart from what the handler made of each call: how the loop ended,
  and the message, writer and request of every call of \<open>Handle\<close>, in order.
\<close>

definition calls :: "'h dispatch list \<Rightarrow> (byte list \<times> writer \<times> 'h Request) list" where
  "calls ds = map (\<lambda>d. (message d, via d, request d)) ds"

definition observed :: "exit \<times> 'h dispatch list \<Rightarrow> exit \<times> (byte list \<times> writer \<times> 'h Request) list" where
  "observed r = (fst r, calls (snd r))"

section \<open>Properties of GrowBuffer\<close>

lemma cap_len_update [simp]: "cap (b\<lparr>len := n\<rparr>) = cap b"
  by (simp add: cap_def)

lemma cap_append_zeros: "cap (append_zeros rt b n) = cap b + n + rt (cap b) (cap b + n)"
  by (simp add: append_zeros_def cap_def)

lemma GrowBuffer_panics_iff:
  "0 \<le> length' \<Longrightarrow> (\<exists>p. GrowBuffer rt bf capacity length' = Inl p) \<longleftrightarrow> capacity < length'"
  by (auto simp: GrowBuffer_def slice_def Let_def cap_append_zeros)

lemma GrowBuffer_result:
  assumes "0 \<le> length'" "length' \<le> capacity"
  shows "\<exists>b. GrowBuffer rt bf capacity length' = Inr b
           \<and> capacity \<le> int (cap b) \<and> int (len b) = length'
           \<and> take (cap bf) (store b) = store bf
           \<and> (if capacity \<le> int (cap bf) then store b = store bf else cap bf < cap b)"
  using assms
  by (auto simp: GrowBuffer_def slice_def Let_def cap_append_zeros)
    (auto simp: append_zeros_def cap_def)

lemma GrowBuffer_negative: "length' < 0 \<Longrightarrow> \<exists>p. GrowBuffer rt bf capacity length' = Inl p"
  by (auto simp: GrowBuffer_def slice_def Let_def)

text \<open>
  Claim C10, as the code has it. \<open>GrowBuffer\<close> panics exactly when the requested
  length exceeds the requested capacity or is negative (the final \<open>buf[:length]\<close> is
  out of range then). For a request with \<open>0 \<le> length \<le> capacity\<close> it returns a
  slice of the requested length whose capacity is at least the requested one; the old
  backing array is a prefix of the new one, and when the requested capacity does not
  exceed the current one the storage is the same.
\<close>

theorem GrowBuffer_contract:
  "((\<exists>p. GrowBuffer rt bf capacity length' = Inl p) \<longleftrightarrow> capacity < length' \<or> length' < 0) \<and>
   (0 \<le> length' \<and> length' \<le> capacity \<longrightarrow>
      (\<exists>b. GrowBuffer rt bf capacity length' = Inr b
          \<and> capacity \<le> int (cap b) \<and> int (len b) = length'
          \<and> take (cap bf) (store b) = store bf
          \<and> (if capacity \<le> int (cap bf) then store b = store bf else cap bf < cap b)))"
proof (intro conjI impI)
  show "(\<exists>p. GrowBuffer rt bf capacity length' = Inl p) \<longleftrightarrow> capacity < length' \<or> length' < 0"
  proof (cases "0 \<le> length'")
    case True
    then show ?thesis using GrowBuffer_panics_iff [of length' rt bf capacity] by auto
  next
    case False
    then show ?thesis using GrowBuffer_negative [of length' rt bf capacity] by auto
  qed
next
  assume a: "0 \<le> length' \<and> length' \<le> capacity"
  then obtain b where b: "GrowBuffer rt bf capacity length' = Inr b"
      "capacity \<le> int (cap b)" "int (len b) = length'"
      "take (cap bf) (store b) = store bf"
      "if capacity \<le> int (cap bf) then store b = store bf else cap bf < cap b"
    using GrowBuffer_result [of length' capacity rt bf] by blast
  then show "\<exists>b. GrowBuffer rt bf capacity length' = Inr b
          \<and> capacity \<le> int (cap b) \<and> int (len b) = length'
          \<and> take (cap bf) (store b) = store bf
          \<and> (if capacity \<le> int (cap bf) then store b = store bf else cap bf < cap b)"
    by blast
qed

theorem GrowBuffer_contract_witness:
  "(0::int) \<le> 4 \<and> (4::int) \<le> 5 \<and>
   (\<exists>b. GrowBuffer no_slack \<lparr>store = [7, 8, 9], len = 2\<rparr> 5 4 = Inr b
          \<and> 5 \<le> int (cap b) \<and> int (len b) = 4
          \<and> take 3 (store b) = [7, 8, 9] \<and> 3 < cap b)"
proof -
  have "(0::int) \<le> 4 \<and> (4::int) \<le> 5"
    by simp
  with GrowBuffer_contract [of no_slack "\<lparr>store = [7, 8, 9], len = 2\<rparr>" 5 4]
  obtain b where "GrowBuffer no_slack \<lparr>store = [7, 8, 9], len = 2\<rparr> 5 4 = Inr b"
    and "5 \<le> int (cap b)" and "int (len b) = 4"
    and "take (cap \<lparr>store = [7, 8, 9], len = 2\<rparr>) (store b) = store \<lparr>store = [7, 8, 9], len = 2\<rparr>"
    and "if 5 \<le> int (cap \<lparr>store = [7, 8, 9], len = 2\<rparr>)
         then store b = store \<lparr>store = [7, 8, 9], len = 2\<rparr>
         else cap \<lparr>store = [7, 8, 9], len = 2\<rparr> < cap b"
    by blast
  then show ?thesis
    by (auto simp: cap_def numeral_3_eq_3)
qed

text \<open>
  With a negative length and a capacity of 0 the length does not exceed the capacity,
  and the call panics all the same.
\<close>

theorem GrowBuffer_negative_length_counterexample:
  "GrowBuffer no_slack pool_New 0 (- 1) = Inl SliceBounds \<and> \<not> (0::int) < - 1"
  by (simp add: GrowBuffer_def slice_def Let_def)

section \<open>The reassembly loop on concrete streams\<close>

text \<open>
  Claim C1 at a failing input. Two complete frames, each a bare 12-byte header, arrive in
  one read. After the first frame \<open>GrowBuffer(buf, size, size)\<close> has cut the slice to
  length 12, so \<open>buf[rpos:]\<close> with \<open>rpos = 14\<close> is out of range: the loop panics
  after one dispatch. The same two frames in two reads are both dispatched.
\<close>

theorem HandleStream_two_frames_in_one_read:
  "messages (HandleStream 4 no_slack raw_header plain_server pool_New 0
      (peer [Bytes (frame (query 1 0) @ frame (query 2 0))]))
     = Some (Panicked SliceBounds, [query 1 0])
   \<and> messages (HandleStream 4 no_slack raw_header plain_server pool_New 0
      (peer [Bytes (frame (query 1 0)), Bytes (frame (query 2 0))]))
     = Some (EndOfStream, [query 1 0, query 2 0])"
  by code_simp

text \<open>
  Claim C3 at a failing input. A frame with a 13-byte message arrives as 14 bytes, then
  1 byte. After the first read the growth step leaves a slice of length 13 with
  \<open>wpos = 14\<close>; the compaction copies \<open>min(13, 14)\<close> bytes and sets \<open>wpos = 13\<close>,
  so one received byte is no longer in \<open>[rpos, wpos)\<close>. The frame is never dispatched.
\<close>

theorem compaction_loses_a_byte:
  "GetBuffer no_slack pool_New 4096 4096 = Inr (buf fresh)
   \<and> fill fresh (peer [Bytes (take 14 (frame (query 1 1))), Bytes (drop 14 (frame (query 1 1)))])
       = Inr (holding (take 14 (frame (query 1 1))) 4096 14, None,
              peer [Bytes (drop 14 (frame (query 1 1)))])
   \<and> frames no_slack raw_header quiet 0 (peer [Bytes (drop 14 (frame (query 1 1)))])
        (holding (take 14 (frame (query 1 1))) 4096 14)
       = (None, holding (take 14 (frame (query 1 1))) 13 14, [])
   \<and> compact (holding (take 14 (frame (query 1 1))) 13 14)
       = Inr (holding (take 14 (frame (query 1 1))) 4096 13)
   \<and> messages (HandleStream 4 no_slack raw_header plain_server pool_New 0
        (peer [Bytes (take 14 (frame (query 1 1))), Bytes (drop 14 (frame (query 1 1)))]))
       = Some (EndOfStream, [])"
  by code_simp

text \<open>
  Claim C9 at a failing input. On a stream connection whose local address is
  \<open>10.0.1.1:53\<close> and whose peer is \<open>1.2.3.4:4242\<close>, the request of the one
  dispatched frame has the peer's address in both fields. The datagram loop fills the
  two fields with the connection's local address and the sender's.
\<close>

theorem HandleStream_LocalAddr_is_remote:
  "map_option (\<lambda>(x, ds). map (\<lambda>d. (LocalAddr (request d), RemoteAddr (request d))) ds)
      (HandleStream 4 no_slack raw_header plain_server pool_New 0 (peer [Bytes (frame (query 1 0))]))
     = Some [(''1.2.3.4:4242'', ''1.2.3.4:4242'')]
   \<and> conn_local (peer [Bytes (frame (query 1 0))]) = ''10.0.1.1:53''
   \<and> map (\<lambda>d. (LocalAddr (request d), RemoteAddr (request d)))
        (snd (snd (Serve no_slack raw_header plain_server pool_New 0
           \<lparr>pconn_id = 2, pconn_local = ''10.0.1.1:53'',
            datagrams = [(''1.2.3.4:5367'', query 1 0)], read_failure = ''closed''\<rparr>)))
     = [(''10.0.1.1:53'', ''1.2.3.4:5367'')]"
  by code_simp

text \<open>
  A frame with a 4096-byte message on a fresh pooled buffer of capacity 4096. The first
  read fills the buffer with the prefix and the first 4094 bytes of the message; two
  bytes stay unread. The growth step asks for capacity 4096, which the buffer has, so
  nothing is allocated; the full buffer is compacted onto itself, and from then on every
  read has no room, returns nothing, and the loop state repeats.
\<close>

lemma big_frame_fill:
  "fill fresh (peer [Bytes (16 # 0 # query 1 4084)])
     = Inr (holding (16 # 0 # query 1 0) 4096 4096, None, peer [Bytes (replicate 2 0)])"
  by (simp add: fill_def fresh_def pool_New_def slice_def cap_def holding_def query_def peer_def)

lemma big_frame_refill:
  "fill (holding (16 # 0 # query 1 0) 4096 4096) (peer [Bytes (replicate 2 0)])
     = Inr (holding (16 # 0 # query 1 0) 4096 4096, None, peer [Bytes (replicate 2 0)])"
  by (simp add: fill_def slice_def cap_def holding_def query_def peer_def)

lemma big_frame_frames:
  "frames rt raw_header quiet 0 (peer [Bytes (replicate 2 0)]) (holding (16 # 0 # query 1 0) 4096 4096)
     = (None, holding (16 # 0 # query 1 0) 4096 4096, [])"
  apply (subst frames.simps)
  apply (simp add: DecodeLength_def GrowBuffer_def slice_def cap_def holding_def query_def)
  done

lemma big_frame_compact:
  "compact (holding (16 # 0 # query 1 0) 4096 4096) = Inr (holding (16 # 0 # query 1 0) 4096 4096)"
  by (simp add: compact_def copy_def slice_def cap_def holding_def query_def)

lemma big_frame_stuck:
  "stream_loop k rt raw_header quiet 0 (peer [Bytes (replicate 2 0)])
     (holding (16 # 0 # query 1 0) 4096 4096) = None"
  by (induction k) (simp_all add: big_frame_frames big_frame_refill big_frame_compact)

lemma big_frame_loop:
  "stream_loop k rt raw_header quiet 0 (peer [Bytes (16 # 0 # query 1 4084)]) fresh = None"
  by (cases k) (simp_all add: big_frame_fill big_frame_frames big_frame_compact big_frame_stuck)

text \<open>
  Claim C2 at a failing input: the frame \<open>[0x10, 0x00]\<close> followed by 4096 bytes. At the
  growth step the decoded length is 4096 and the read position 0; afterwards the
  capacity is still 4096, less than \<open>0 + 2 + 4096\<close>. The frame can never be buffered
  whole: whatever the runtime's allocation policy \<open>rt\<close> and however many reads are
  allowed, \<open>HandleStream\<close> does not return.
\<close>

theorem growth_leaves_no_room_for_prefix:
  "DecodeLength (buf (holding (16 # 0 # query 1 0) 4096 4096)) = Inr 4096
   \<and> GrowBuffer rt (buf (holding (16 # 0 # query 1 0) 4096 4096)) 4096 4096
       = Inr (buf (holding (16 # 0 # query 1 0) 4096 4096))
   \<and> cap (buf (holding (16 # 0 # query 1 0) 4096 4096)) = 4096
   \<and> frames rt raw_header quiet 0 (peer [Bytes (replicate 2 0)])
        (holding (16 # 0 # query 1 0) 4096 4096)
       = (None, holding (16 # 0 # query 1 0) 4096 4096, [])
   \<and> HandleStream fuel rt raw_header plain_server pool_New 0
        (peer [Bytes (16 # 0 # query 1 4084)]) = None"
proof -
  have "GetBuffer rt pool_New 4096 4096 = Inr pool_New"
    by (simp add: GetBuffer_def GrowBuffer_def slice_def cap_def pool_New_def)
  then have "HandleStream fuel rt raw_header plain_server pool_New 0
        (peer [Bytes (16 # 0 # query 1 4084)]) = None"
    using big_frame_loop [of fuel rt]
    by (simp add: HandleStream_def plain_server_def fresh_def)
  moreover have "DecodeLength (buf (holding (16 # 0 # query 1 0) 4096 4096)) = Inr 4096"
    by (simp add: DecodeLength_def holding_def query_def)
  moreover have "GrowBuffer rt (buf (holding (16 # 0 # query 1 0) 4096 4096)) 4096 4096
       = Inr (buf (holding (16 # 0 # query 1 0) 4096 4096))"
    by (simp add: GrowBuffer_def slice_def cap_def holding_def query_def)
  moreover have "cap (buf (holding (16 # 0 # query 1 0) 4096 4096)) = 4096"
    by (simp add: cap_def holding_def query_def)
  ultimately show ?thesis
    using big_frame_frames [of rt] by simp
qed

section \<open>Frames of length zero\<close>

lemma Handle_returns: "\<exists>res. Handle Start h msg wr req = Inr res"
  by (simp add: Handle_def deferred_recover_def split: sum.splits)

lemma frames_short:
  "int (wpos c) - int (rpos c) < 14 \<Longrightarrow> frames rt Start h cx cn c = (None, c, [])"
  by (subst frames.simps) simp

lemma DecodeLength_zero:
  assumes "rpos c + 2 \<le> len (buf c)" "len (buf c) \<le> cap (buf c)"
    "store (buf c) ! rpos c = 0" "store (buf c) ! (rpos c + 1) = 0"
  shows "\<exists>hdr. slice (buf c) (int (rpos c)) (int (len (buf c))) = Inr hdr \<and> DecodeLength hdr = Inr 0"
  using assms by (simp add: slice_def DecodeLength_def cap_def)

lemma frames_zero_prefix:
  assumes "14 \<le> int (wpos c) - int (rpos c)"
    and "rpos c + 2 \<le> len (buf c)" "len (buf c) \<le> cap (buf c)"
    and "store (buf c) ! rpos c = 0" "store (buf c) ! (rpos c + 1) = 0"
  shows "\<exists>po c' ds res. frames rt Start h cx cn c =
           (po, c', \<lparr>message = [], via = StreamWriter (conn_id cn),
                     request = \<lparr>Header = None, LocalAddr = conn_remote cn,
                                RemoteAddr = conn_remote cn, ctx = cx\<rparr>,
                     result = res\<rparr> # ds)"
proof -
  obtain hdr where hdr: "slice (buf c) (int (rpos c)) (int (len (buf c))) = Inr hdr"
      "DecodeLength hdr = Inr 0"
    using DecodeLength_zero [OF assms(2-5)] by blast
  have grow: "GrowBuffer rt (buf c) 0 0 = Inr ((buf c)\<lparr>len := 0\<rparr>)"
    by (simp add: GrowBuffer_def slice_def)
  obtain m where msg: "slice ((buf c)\<lparr>len := 0\<rparr>) (int (rpos c + 2)) (int (rpos c + 2) + 0) = Inr m"
      "len m = 0"
    using assms(2,3) by (simp add: slice_def cap_def)
  obtain res where res: "Handle Start h [] (StreamWriter (conn_id cn))
      \<lparr>Header = None, LocalAddr = conn_remote cn, RemoteAddr = conn_remote cn, ctx = cx\<rparr> = Inr res"
    using Handle_returns by blast
  obtain po c' ds where rest:
    "frames rt Start h cx cn (c\<lparr>buf := (buf c)\<lparr>len := 0\<rparr>, rpos := rpos c + 2 + 0\<rparr>) = (po, c', ds)"
    by (metis prod_cases3)
  show ?thesis
    apply (subst frames.simps)
    using assms(1) hdr grow msg res rest
    apply (simp add: Let_def)
    done
qed


text \<open>
  Claim C4, as the code has it. The loop looks at a frame only while at least 14 unread
  bytes are buffered (length prefix plus a 12-byte message header): with fewer, an
  extraction pass dispatches nothing and leaves the cursor as it is. With at least 14
  unread bytes, a length prefix of 0 at the read position makes the loop call
  \<open>Handle\<close> with an empty message.
\<close>

theorem zero_length_frame_dispatch:
  "(int (wpos c) - int (rpos c) < 14 \<longrightarrow> frames rt Start h cx cn c = (None, c, [])) \<and>
   (14 \<le> int (wpos c) - int (rpos c) \<and> rpos c + 2 \<le> len (buf c) \<and> len (buf c) \<le> cap (buf c)
      \<and> store (buf c) ! rpos c = 0 \<and> store (buf c) ! (rpos c + 1) = 0 \<longrightarrow>
      (\<exists>po c' ds res. frames rt Start h cx cn c =
           (po, c', \<lparr>message = [], via = StreamWriter (conn_id cn),
                     request = \<lparr>Header = None, LocalAddr = conn_remote cn,
                                RemoteAddr = conn_remote cn, ctx = cx\<rparr>,
                     result = res\<rparr> # ds)))"
  using frames_short [of c rt Start h cx cn] frames_zero_prefix [of c rt Start h cx cn]
  by blast

theorem zero_length_frame_dispatch_witness:
  "frames no_slack raw_header quiet 0 (peer []) (holding [0, 0] 4096 2)
     = (None, holding [0, 0] 4096 2, []) \<and>
   (\<exists>po c' ds res. frames no_slack raw_header quiet 0 (peer []) (holding (0 # 0 # query 1 0) 4096 14) =
           (po, c', \<lparr>message = [], via = StreamWriter (conn_id (peer [])),
                     request = \<lparr>Header = None, LocalAddr = conn_remote (peer []),
                                RemoteAddr = conn_remote (peer []), ctx = 0\<rparr>,
                     result = res\<rparr> # ds))"
  using zero_length_frame_dispatch [of "holding [0, 0] 4096 2" no_slack raw_header quiet 0 "peer []"]
    zero_length_frame_dispatch [of "holding (0 # 0 # query 1 0) 4096 14" no_slack raw_header quiet 0 "peer []"]
  by (simp add: holding_def query_def cap_def)

text \<open>
  A stream that holds one frame of length 0 and then ends: nothing is dispatched.
\<close>

theorem zero_length_frame_alone_counterexample:
  "messages (HandleStream 4 no_slack raw_header plain_server pool_New 0 (peer [Bytes [0, 0]]))
     = Some (EndOfStream, [])"
  by code_simp

section \<open>Isolation of handler panics\<close>

lemma Handle_value:
  "Handle Start h msg wr req =
     Inr (case Start msg of
            Inl e \<Rightarrow> ParseFailed e
          | Inr p \<Rightarrow> (case h wr (req\<lparr>Header := Some p\<rparr>) of
                        Some v \<Rightarrow> Recovered v
                      | None \<Rightarrow> Served (req\<lparr>Header := Some p\<rparr>)))"
  by (simp add: Handle_def Handle_body_def deferred_recover_def Let_def
      split: sum.splits option.splits)

lemma calls_Cons [simp]: "calls (d # ds) = (message d, via d, request d) # calls ds"
  by (simp add: calls_def)

lemma calls_Nil [simp]: "calls [] = []"
  by (simp add: calls_def)

lemma calls_append [simp]: "calls (ds @ ds') = calls ds @ calls ds'"
  by (simp add: calls_def)

lemma frames_any_handler:
  "fst (frames rt Start h cx cn c) = fst (frames rt Start h' cx cn c)
   \<and> fst (snd (frames rt Start h cx cn c)) = fst (snd (frames rt Start h' cx cn c))
   \<and> calls (snd (snd (frames rt Start h cx cn c))) = calls (snd (snd (frames rt Start h' cx cn c)))"
proof (induction "wpos c - rpos c" arbitrary: c rule: less_induct)
  case less
  have smaller: "\<And>b n. 14 \<le> int (wpos c) - int (rpos c) \<Longrightarrow>
      wpos (c\<lparr>buf := b, rpos := rpos c + 2 + n\<rparr>) - rpos (c\<lparr>buf := b, rpos := rpos c + 2 + n\<rparr>)
        < wpos c - rpos c"
    by simp
  show ?case
  proof (cases "14 \<le> int (wpos c) - int (rpos c)")
    case False
    then show ?thesis
      by (simp add: frames.simps [of rt Start h cx cn c] frames.simps [of rt Start h' cx cn c])
  next
    case True
    note rec = less [OF smaller [OF True]]
    show ?thesis
      using True rec
      by (simp add: frames.simps [of rt Start h cx cn c] frames.simps [of rt Start h' cx cn c]
          Let_def Handle_value split_beta split: sum.splits)
  qed
qed


lemma observed_pair [simp]: "observed (x, ds) = (x, calls ds)"
  by (simp add: observed_def)

lemma stream_loop_any_handler:
  "map_option observed (stream_loop k rt Start h cx cn c)
     = map_option observed (stream_loop k rt Start h' cx cn c)"
proof (induction k arbitrary: cn c)
  case 0
  then show ?case by simp
next
  case (Suc k)
  show ?case
  proof (cases "fill c cn")
    case (Inl p)
    then show ?thesis by simp
  next
    case (Inr r)
    obtain c1 err cn1 where r: "r = (c1, err, cn1)"
      by (cases r) auto
    obtain po c2 ds where f: "frames rt Start h cx cn1 c1 = (po, c2, ds)"
      by (cases "frames rt Start h cx cn1 c1") auto
    obtain po' c2' ds' where f': "frames rt Start h' cx cn1 c1 = (po', c2', ds')"
      by (cases "frames rt Start h' cx cn1 c1") auto
    have same: "po' = po" "c2' = c2" "calls ds' = calls ds"
      using frames_any_handler [of rt Start h cx cn1 c1 h'] f f' by simp_all
    have step: "map_option observed (map_option (\<lambda>(x, e). (x, ds @ e)) (stream_loop k rt Start h cx cn1 c3))
       = map_option observed (map_option (\<lambda>(x, e). (x, ds' @ e)) (stream_loop k rt Start h' cx cn1 c3))"
      for c3
      using Suc.IH [of cn1 c3] same(3)
      by (cases "stream_loop k rt Start h cx cn1 c3"; cases "stream_loop k rt Start h' cx cn1 c3")
        (auto simp: observed_def)
    show ?thesis
      using Inr r f f' same step
      by (auto split: option.splits read_error.splits sum.splits)
  qed
qed

lemma datagram_loop_any_handler:
  "observed (datagram_loop rt Start h cx pooled pc ds)
     = observed (datagram_loop rt Start h' cx pooled pc ds)"
proof (induction ds)
  case Nil
  then show ?case by simp
next
  case (Cons d ds)
  obtain sender bytes where d: "d = (sender, bytes)"
    by (cases d) auto
  show ?case
    using Cons.IH
    by (simp add: d Let_def Handle_value split_beta observed_def split: sum.splits)
qed


text \<open>
  Claim C6. \<open>Handle\<close> returns normally whatever the handler and the parser do: a
  parse error and a handler's panic both end as a logged result. So what the stream loop
  and the datagram loop do (how they end, and which messages they hand to \<open>Handle\<close>
  with which writer and request, in which order) is the same for any two handlers, in
  particular for one that panics and one that does not.
\<close>

theorem Handle_contains_panics:
  "Handle Start h msg wr req =
     Inr (case Start msg of
            Inl e \<Rightarrow> ParseFailed e
          | Inr p \<Rightarrow> (case h wr (req\<lparr>Header := Some p\<rparr>) of
                        Some v \<Rightarrow> Recovered v
                      | None \<Rightarrow> Served (req\<lparr>Header := Some p\<rparr>)))
   \<and> map_option observed (HandleStream fuel rt Start (srv\<lparr>Handler := h\<rparr>) pooled cx cn)
       = map_option observed (HandleStream fuel rt Start (srv\<lparr>Handler := h'\<rparr>) pooled cx cn)
   \<and> observed (snd (Serve rt Start (srv\<lparr>Handler := h\<rparr>) pooled root pc))
       = observed (snd (Serve rt Start (srv\<lparr>Handler := h'\<rparr>) pooled root pc))"
proof (intro conjI)
  show "Handle Start h msg wr req =
     Inr (case Start msg of
            Inl e \<Rightarrow> ParseFailed e
          | Inr p \<Rightarrow> (case h wr (req\<lparr>Header := Some p\<rparr>) of
                        Some v \<Rightarrow> Recovered v
                      | None \<Rightarrow> Served (req\<lparr>Header := Some p\<rparr>)))"
    by (rule Handle_value)
  show "map_option observed (HandleStream fuel rt Start (srv\<lparr>Handler := h\<rparr>) pooled cx cn)
       = map_option observed (HandleStream fuel rt Start (srv\<lparr>Handler := h'\<rparr>) pooled cx cn)"
    using stream_loop_any_handler [of fuel rt Start h _ cn _ h']
    by (simp add: HandleStream_def Let_def split: sum.splits option.splits)
  show "observed (snd (Serve rt Start (srv\<lparr>Handler := h\<rparr>) pooled root pc))
       = observed (snd (Serve rt Start (srv\<lparr>Handler := h'\<rparr>) pooled root pc))"
    using datagram_loop_any_handler [of rt Start h _ pooled pc _ h']
    by (simp add: Serve_def AddCloser_def Let_def split: option.splits)
qed

lemma panicking_handler_on_two_frames:
  "map_option (\<lambda>(x, ds). (x, map (\<lambda>d. (message d, result d)) ds))
     (HandleStream 4 no_slack raw_header (plain_server\<lparr>Handler := grumpy\<rparr>) pool_New 0
        (peer [Bytes (frame (query 1 0)), Bytes (frame (query 2 0))]))
   = Some (EndOfStream, [(query 1 0, Recovered (Raised ''boom'')), (query 2 0, Recovered (Raised ''boom''))])"
  by code_simp

section \<open>Shutdown and the closer set\<close>

lemma errors_of_Append: "errors_of (multierr_Append a b) = errors_of a @ errors_of b"
  by (cases a; cases b) simp_all

lemma errors_of_Single: "errors_of (map_option Single r) = (case r of None \<Rightarrow> [] | Some e \<Rightarrow> [e])"
  by (cases r) simp_all

lemma close_each_errors:
  "errors_of (close_each Close cls err) = errors_of err @ List.map_filter Close cls"
  by (induction cls arbitrary: err)
    (simp_all add: errors_of_Append errors_of_Single List.map_filter_simps split: option.splits)

text \<open>
  Claim C7, as the code has it. \<open>CloseAll\<close> closes every registered closer, in
  order and whatever the earlier ones returned, and its result holds exactly the errors
  they returned. \<open>Shutdown\<close> logs that result when it is not \<open>nil\<close>; its own
  result is always \<open>nil\<close>.
\<close>

theorem CloseAll_aggregates_Shutdown_returns_nil:
  "errors_of (CloseAll Close srv) = List.map_filter Close (entries srv)
   \<and> Shutdown Close srv = (None, case CloseAll Close srv of Some cerr \<Rightarrow> [cerr] | None \<Rightarrow> [])"
  by (simp add: CloseAll_def Shutdown_def close_each_errors)

text \<open>
  Two registered closers that both fail: \<open>CloseAll\<close> returns both errors,
  \<open>Shutdown\<close> returns \<open>nil\<close>.
\<close>

theorem Shutdown_returns_nil_counterexample:
  "CloseAll refusing (plain_server\<lparr>entries := [ListenerC 1, PacketConnC 2]\<rparr>)
     = Some (Multi [''use of closed network connection'', ''use of closed network connection''])
   \<and> fst (Shutdown refusing (plain_server\<lparr>entries := [ListenerC 1, PacketConnC 2]\<rparr>)) = None"
  by (simp add: CloseAll_def Shutdown_def plain_server_def refusing_def)

text \<open>
  Claim C8, as the code has it. \<open>Serve\<close> adds its packet connection to the closer
  set and \<open>ServeStream\<close> its listener, before their loops start; neither adds
  anything else, so the connections a listener accepts are not in the set.
\<close>

theorem registered_closers:
  "entries (fst (Serve rt Start srv pooled root pc)) = entries srv @ [PacketConnC (pconn_id pc)]
   \<and> entries (fst (ServeStream fuel rt Start srv pooled root l))
       = entries srv @ [ListenerC (listener_id l)]"
  by (simp add: Serve_def ServeStream_def AddCloser_def Let_def)

text \<open>
  A listener that accepts one connection: the connection is served, and is not in the
  closer set.
\<close>

theorem accepted_connection_not_registered_counterexample:
  "ConnC (conn_id (peer [Bytes (frame (query 1 0))]))
     \<notin> set (entries (fst (ServeStream 4 no_slack raw_header plain_server pool_New 0
          \<lparr>listener_id = 3, listener_addr = ''10.0.1.1:53'',
           backlog = [peer [Bytes (frame (query 1 0))]], accept_failure = ''closed''\<rparr>)))
   \<and> map messages (snd (snd (ServeStream 4 no_slack raw_header plain_server pool_New 0
          \<lparr>listener_id = 3, listener_addr = ''10.0.1.1:53'',
           backlog = [peer [Bytes (frame (query 1 0))]], accept_failure = ''closed''\<rparr>)))
       = [Some (EndOfStream, [query 1 0])]"
  by code_simp

section \<open>Response framing\<close>

lemma unat_hi: "unat (ucast (drop_bit 8 (v :: 16 word)) :: 8 word) = unat v div 256"
proof -
  have "unat v < 65536" using unsigned_less [of v, where ?'a = nat] by simp
  then have small: "unat v div 256 < 256" by simp
  have "unat (drop_bit 8 v) = unat v div 256"
    unfolding unat_drop_bit_eq by (simp add: drop_bit_eq_div)
  moreover have "unat (ucast (drop_bit 8 v) :: 8 word) = unat (drop_bit 8 v) mod 256"
    unfolding unsigned_ucast_eq by (simp add: take_bit_eq_mod)
  ultimately show ?thesis using small by simp
qed

lemma unat_lo: "unat (ucast (v :: 16 word) :: 8 word) = unat v mod 256"
  unfolding unsigned_ucast_eq by (simp add: take_bit_eq_mod)

lemma big_endian_bytes:
  "unat (ucast (drop_bit 8 (v :: 16 word)) :: 8 word) * 256 + unat (ucast v :: 8 word) = unat v"
proof -
  have "unat (ucast (drop_bit 8 v) :: 8 word) * 256 + unat (ucast v :: 8 word)
      = unat v div 256 * 256 + unat v mod 256"
    by (simp only: unat_hi unat_lo [of v])
  then show ?thesis by simp
qed

lemma Builder_lengths:
  "\<exists>b. StreamWriter_Builder rt pooled = Inr b \<and> len b = 2 \<and> 4096 \<le> cap b"
  "\<exists>b. PacketWriter_Builder rt pooled = Inr b \<and> len b = 0"
  using GrowBuffer_result [of 2 4096 rt pooled] GrowBuffer_result [of 0 4096 rt pooled]
  by (auto simp: StreamWriter_Builder_def PacketWriter_Builder_def GetBuffer_def)

lemma stream_written:
  assumes "len b = 2" "len b \<le> cap b"
  shows "StreamWriter_SendBuilder None (Finish b content) =
           Inr (ucast (drop_bit 8 (word_of_nat (length content) :: 16 word))
                # ucast (word_of_nat (length content) :: 16 word) # content)"
proof -
  obtain x y rest where s: "store b = x # y # rest"
    using assms by (cases "store b"; cases "tl (store b)") (auto simp: cap_def)
  show ?thesis
    using assms(1)
    by (simp add: StreamWriter_SendBuilder_def Finish_def EncodeLength_def Send_def s)
qed

lemma packet_written:
  assumes "len b = 0"
  shows "PacketWriter_SendBuilder None (Finish b content) = Inr content"
  using assms by (simp add: PacketWriter_SendBuilder_def Finish_def Send_def)


text \<open>
  Claim C5, as the code has it. A stream writer's builder starts on a slice of length 2,
  and \<open>SendBuilder\<close> writes the two reserved bytes followed by the encoded message;
  read as a big-endian number the two bytes are the number of bytes that follow them,
  modulo \<open>2^16\<close> (the conversion \<open>uint16(len(msg)-2)\<close>). A packet writer's builder
  starts on an empty slice and \<open>SendBuilder\<close> writes the encoded message and nothing
  else.
\<close>

theorem SendBuilder_framing:
  "(\<exists>b w. StreamWriter_Builder rt pooled = Inr b
        \<and> StreamWriter_SendBuilder None (Finish b content) = Inr w
        \<and> length w = length content + 2 \<and> drop 2 w = content
        \<and> unat (w ! 0) * 256 + unat (w ! 1) = (length w - 2) mod 65536)
   \<and> (\<exists>b. PacketWriter_Builder rt pooled = Inr b
        \<and> PacketWriter_SendBuilder None (Finish b content) = Inr content)"
proof
  obtain b where b: "StreamWriter_Builder rt pooled = Inr b" "len b = 2" "4096 \<le> cap b"
    using Builder_lengths(1) by blast
  define v :: "16 word" where "v = word_of_nat (length content)"
  define w where "w = ucast (drop_bit 8 v) # (ucast v :: byte) # content"
  have sent: "StreamWriter_SendBuilder None (Finish b content) = Inr w"
    using stream_written [of b content] b by (simp add: w_def v_def)
  have "unat (w ! 0) * 256 + unat (w ! 1) = unat v"
    using big_endian_bytes [of v] by (simp add: w_def)
  also have "\<dots> = length content mod 65536"
    by (simp add: v_def unat_of_nat)
  finally have "unat (w ! 0) * 256 + unat (w ! 1) = (length w - 2) mod 65536"
    by (simp add: w_def)
  then show "\<exists>b w. StreamWriter_Builder rt pooled = Inr b
        \<and> StreamWriter_SendBuilder None (Finish b content) = Inr w
        \<and> length w = length content + 2 \<and> drop 2 w = content
        \<and> unat (w ! 0) * 256 + unat (w ! 1) = (length w - 2) mod 65536"
    using b(1) sent by (intro exI [of _ b] exI [of _ w]) (simp add: w_def)
next
  show "\<exists>b. PacketWriter_Builder rt pooled = Inr b
        \<and> PacketWriter_SendBuilder None (Finish b content) = Inr content"
    using Builder_lengths(2) [of rt pooled] packet_written by blast
qed

text \<open>
  A message of 65536 bytes built on a stream writer's builder: 65538 bytes are written,
  and the first two are zero.
\<close>

theorem SendBuilder_long_message_counterexample:
  "StreamWriter_Builder no_slack pool_New = Inr \<lparr>store = replicate 4096 0, len = 2\<rparr>
   \<and> StreamWriter_SendBuilder None (Finish \<lparr>store = replicate 4096 0, len = 2\<rparr> (replicate 65536 0))
       = Inr (0 # 0 # replicate 65536 0)
   \<and> length (0 # 0 # replicate 65536 (0 :: byte)) - 2 = 65536"
proof -
  have "StreamWriter_Builder no_slack pool_New = Inr \<lparr>store = replicate 4096 0, len = 2\<rparr>"
    by (simp add: StreamWriter_Builder_def GetBuffer_def GrowBuffer_def slice_def cap_def
        pool_New_def)
  moreover have "StreamWriter_SendBuilder None (Finish \<lparr>store = replicate 4096 0, len = 2\<rparr> (replicate 65536 0))
       = Inr (0 # 0 # replicate 65536 0)"
    using stream_written [of "\<lparr>store = replicate 4096 0, len = 2\<rparr>" "replicate 65536 0"]
    by (simp add: cap_def)
  ultimately show ?thesis by simp
qed

end
